theory Spec2Isabelle
  imports Main "HOL-Library.Sublist"
begin

section \<open>Strings, values and errors of the module\<close>

text \<open>
  The module \<^verbatim>\<open>src/index.ts\<close> consists of pure functions from strings to strings that
  either return a string or throw. A string of the program is a \<^typ>\<open>string\<close>: each
  \<^typ>\<open>char\<close> stands for one code unit below 256. A throw is the left summand of the
  result type.

  \<^verbatim>\<open>new Error(msg)\<close> is \<open>Error msg\<close>. \<open>TypeError\<close> is the exception the language
  runtime raises by itself when a method is read from \<^verbatim>\<open>undefined\<close> or \<^verbatim>\<open>null\<close> or when
  a value that is not a function is called; its message is chosen by the runtime and is
  not a string of this module.
\<close>

datatype error = Error string | TypeError

text \<open>
  The functions are typed, but the types are erased before the code runs, and the checks
  \<^verbatim>\<open>typeof x !== 'string'\<close> and \<^verbatim>\<open>!options\<close> of the source only make sense for
  arguments outside their declared type. Such arguments are values of \<open>jsval\<close>.
\<close>

datatype jsval =
    JUndefined
  | JNull
  | JBool bool
  | JNum int
  | JStr string
  | JArr "jsval list"

fun typeof :: "jsval \<Rightarrow> string" where
  "typeof JUndefined = ''undefined''"
| "typeof JNull = ''object''"
| "typeof (JBool _) = ''boolean''"
| "typeof (JNum _) = ''number''"
| "typeof (JStr _) = ''string''"
| "typeof (JArr _) = ''object''"

text \<open>The condition of \<^verbatim>\<open>v ? a : b\<close>.\<close>

fun truthy :: "jsval \<Rightarrow> bool" where
  "truthy JUndefined = False"
| "truthy JNull = False"
| "truthy (JBool b) = b"
| "truthy (JNum n) = (n \<noteq> 0)"
| "truthy (JStr s) = (s \<noteq> [])"
| "truthy (JArr _) = True"

subsection \<open>Library functions the module calls\<close>

text \<open>
  \<^verbatim>\<open>String.prototype.trim\<close> removes white space and line terminators from both ends.
  Below 256 these are the code units 9 to 13, 32 and 160.
\<close>

definition is_white_space :: "char \<Rightarrow> bool" where
  "is_white_space c =
     (c \<in> {CHR 0x09, CHR 0x0A, CHR 0x0B, CHR 0x0C, CHR 0x0D, CHR 0x20, CHR 0xA0})"

definition trim :: "string \<Rightarrow> string" where
  "trim s = rev (dropWhile is_white_space (rev (dropWhile is_white_space s)))"

text \<open>\<^verbatim>\<open>String.prototype.startsWith\<close> with one argument.\<close>

definition startsWith :: "string \<Rightarrow> string \<Rightarrow> bool" where
  "startsWith s p = prefix p s"

text \<open>
  \<^verbatim>\<open>Array.prototype.join\<close> on an array of strings: the elements, with the separator
  between each two of them, and the empty string for the empty array.
\<close>

fun join :: "string list \<Rightarrow> string \<Rightarrow> string" where
  "join [] sep = []"
| "join [x] sep = x"
| "join (x # y # ys) sep = x @ sep @ join (y # ys) sep"

text \<open>
  \<^verbatim>\<open>String.prototype.replace\<close> with a global regular expression that is a character
  class, and a function for the replacement: the input is scanned once from left to
  right, a code unit of the class is replaced with what the function returns for it, any
  other is copied. The replacement is not scanned again.
\<close>

fun replace_class :: "(char \<Rightarrow> bool) \<Rightarrow> (char \<Rightarrow> string) \<Rightarrow> string \<Rightarrow> string" where
  "replace_class cls f [] = []"
| "replace_class cls f (c # cs) = (if cls c then f c else [c]) @ replace_class cls f cs"

text \<open>
  A number in a template literal is printed by \<^verbatim>\<open>Number.prototype.toString\<close>. For an
  integer that is exactly representable and below \<open>10\<^sup>2\<^sup>1\<close> in size this is its decimal
  numeral, with a minus sign when negative. The model is exact for these integers only:
  from \<open>10\<^sup>2\<^sup>1\<close> on the program prints the exponent form, which \<open>number_toString\<close>
  does not produce.
\<close>

fun digits :: "nat \<Rightarrow> string" where
  "digits n =
     (if n < 10 then [''0123456789'' ! n]
      else digits (n div 10) @ [''0123456789'' ! (n mod 10)])"

declare digits.simps [simp del]

definition number_toString :: "int \<Rightarrow> string" where
  "number_toString i = (if i < 0 then ''-'' @ digits (nat (- i)) else digits (nat i))"

section \<open>The module\<close>

subsection \<open>sanitizeHTML\<close>

text \<open>The regular expression \<^verbatim>\<open>/[&<>"]/g\<close> and the object literal of replacements.\<close>

definition special_class :: "char \<Rightarrow> bool" where
  "special_class c = (c \<in> set ''&<>\"'')"

definition entity_table :: "(char \<times> string) list" where
  "entity_table =
     [(CHR ''&'', ''&amp;''),
      (CHR ''<'', ''&lt;''),
      (CHR ''>'', ''&gt;''),
      (CHR 0x22, ''&quot;'')]"

text \<open>
  Reading a key the object does not have gives \<^verbatim>\<open>undefined\<close>, which \<^verbatim>\<open>replace\<close>
  converts to the string \<^verbatim>\<open>undefined\<close>.
\<close>

definition entity_of :: "char \<Rightarrow> string" where
  "entity_of m = (case map_of entity_table m of Some r \<Rightarrow> r | None \<Rightarrow> ''undefined'')"

definition sanitizeHTML :: "string \<Rightarrow> string" where
  "sanitizeHTML input = replace_class special_class entity_of input"

text \<open>
  \<^verbatim>\<open>sanitizeHTML\<close> called with a value that need not be a string: only a string has
  the method \<^verbatim>\<open>replace\<close>.
\<close>

fun sanitizeHTML_val :: "jsval \<Rightarrow> error + string" where
  "sanitizeHTML_val (JStr s) = Inr (sanitizeHTML s)"
| "sanitizeHTML_val _ = Inl TypeError"

subsection \<open>generateWebsite\<close>

text \<open>
  The argument object. A property that is not there reads as \<^verbatim>\<open>undefined\<close>. The
  argument itself is \<open>None\<close> when the caller passes \<^verbatim>\<open>null\<close> or \<^verbatim>\<open>undefined\<close>.
\<close>

record options =
  title :: jsval
  bodyContent :: jsval
  styles :: jsval
  scripts :: jsval

text \<open>\<^verbatim>\<open>typeof v !== 'string' || v.trim() === ''\<close>\<close>

definition not_string_or_blank :: "jsval \<Rightarrow> bool" where
  "not_string_or_blank v =
     (typeof v \<noteq> ''string'' \<or> (case v of JStr s \<Rightarrow> trim s = [] | _ \<Rightarrow> False))"

text \<open>\<^verbatim>\<open>v ? sanitizeHTML(v) : ''\<close>\<close>

definition sanitize_optional :: "jsval \<Rightarrow> error + string" where
  "sanitize_optional v = (if truthy v then sanitizeHTML_val v else Inr [])"

text \<open>\<^verbatim>\<open>s ? `<tag>${s}</tag>` : ''\<close> for a string \<open>s\<close>.\<close>

definition optional_block :: "string \<Rightarrow> string \<Rightarrow> string" where
  "optional_block tag s = (if s \<noteq> [] then ''<'' @ tag @ ''>'' @ s @ ''</'' @ tag @ ''>'' else [])"

definition title_required :: string where
  "title_required = ''Title is required and must be a non-empty string''"

definition body_required :: string where
  "body_required = ''Body content is required and must be a non-empty string''"

definition generateWebsite :: "options option \<Rightarrow> error + string" where
  "generateWebsite opts =
     (case opts of
        None \<Rightarrow> Inl (Error title_required)
      | Some options \<Rightarrow>
          if not_string_or_blank (title options) then Inl (Error title_required)
          else if not_string_or_blank (bodyContent options) then Inl (Error body_required)
          else
            (case sanitizeHTML_val (title options) of Inl e \<Rightarrow> Inl e | Inr sanitizedTitle \<Rightarrow>
            (case sanitizeHTML_val (bodyContent options) of Inl e \<Rightarrow> Inl e | Inr sanitizedBody \<Rightarrow>
            (case sanitize_optional (styles options) of Inl e \<Rightarrow> Inl e | Inr sanitizedStyles \<Rightarrow>
            (case sanitize_optional (scripts options) of Inl e \<Rightarrow> Inl e | Inr sanitizedScripts \<Rightarrow>
               Inr (''<!DOCTYPE html>\<newline>'' @
                    ''<html lang=\"en\">\<newline>'' @
                    ''<head>\<newline>'' @
                    ''  <meta charset=\"UTF-8\">\<newline>'' @
                    ''  <meta name=\"viewport\" content=\"width=device-width, initial-scale=1.0\">\<newline>'' @
                    ''  <title>'' @ sanitizedTitle @ ''</title>\<newline>'' @
                    ''  '' @ optional_block ''style'' sanitizedStyles @ ''\<newline>'' @
                    ''</head>\<newline>'' @
                    ''<body>\<newline>'' @
                    ''  '' @ sanitizedBody @ ''\<newline>'' @
                    ''  '' @ optional_block ''script'' sanitizedScripts @ ''\<newline>'' @
                    ''</body>\<newline>'' @
                    ''</html>''))))))"

subsection \<open>The fragment builders\<close>

definition createHeading :: "string \<Rightarrow> int \<Rightarrow> error + string" where
  "createHeading text level =
     Inr (''<h'' @ number_toString level @ ''>'' @ sanitizeHTML text @
          ''</h'' @ number_toString level @ ''>'')"

definition createParagraph :: "string \<Rightarrow> error + string" where
  "createParagraph text = Inr (''<p>'' @ sanitizeHTML text @ ''</p>'')"

text \<open>
  \<^verbatim>\<open>items.map(item => `<li>${sanitizeHTML(item)}</li>`)\<close> on an array: the callback runs
  on the elements in order, and the first one that throws ends the call.
\<close>

fun map_list_items :: "jsval list \<Rightarrow> error + string list" where
  "map_list_items [] = Inr []"
| "map_list_items (item # rest) =
     (case sanitizeHTML_val item of
        Inl e \<Rightarrow> Inl e
      | Inr s \<Rightarrow>
          (case map_list_items rest of
             Inl e \<Rightarrow> Inl e
           | Inr ls \<Rightarrow> Inr ((''<li>'' @ s @ ''</li>'') # ls)))"

text \<open>
  Only an array has the method \<^verbatim>\<open>map\<close>: on \<^verbatim>\<open>undefined\<close> and \<^verbatim>\<open>null\<close> reading it
  throws, on any other value it reads as \<^verbatim>\<open>undefined\<close> and calling it throws.
\<close>

fun createUnorderedList :: "jsval \<Rightarrow> error + string" where
  "createUnorderedList (JArr items) =
     (case map_list_items items of
        Inl e \<Rightarrow> Inl e
      | Inr ls \<Rightarrow> Inr (''<ul>\<newline>'' @ join ls ''\<newline>'' @ ''\<newline></ul>''))"
| "createUnorderedList _ = Inl TypeError"

definition xss_detected :: string where
  "xss_detected = ''Invalid href: Potential XSS attack detected''"

definition createLink :: "string \<Rightarrow> string \<Rightarrow> error + string" where
  "createLink text href =
     (if startsWith href ''javascript:'' \<or> startsWith href ''data:''
      then Inl (Error xss_detected)
      else Inr (''<a href=\"'' @ sanitizeHTML href @ ''\">'' @ sanitizeHTML text @ ''</a>''))"

section \<open>Notions of the specification\<close>

text \<open>
  The specification describes the escaper by what happens to one character: each of the
  four special characters becomes its entity, any other character stays.
\<close>

definition escape_char :: "char \<Rightarrow> string" where
  "escape_char c =
     (if c = CHR ''&'' then ''&amp;''
      else if c = CHR ''<'' then ''&lt;''
      else if c = CHR ''>'' then ''&gt;''
      else if c = CHR 0x22 then ''&quot;''
      else [c])"

text \<open>
  The document template of the specification: thirteen lines, joined by newlines, with
  no newline after the last. The style line and the script line are indented by two
  spaces like the lines around them.
\<close>

definition document_template :: "string \<Rightarrow> string \<Rightarrow> string \<Rightarrow> string \<Rightarrow> string" where
  "document_template title_text style_block body_text script_block =
     join
       [''<!DOCTYPE html>'',
        ''<html lang=\"en\">'',
        ''<head>'',
        ''  <meta charset=\"UTF-8\">'',
        ''  <meta name=\"viewport\" content=\"width=device-width, initial-scale=1.0\">'',
        ''  <title>'' @ title_text @ ''</title>'',
        ''  '' @ style_block,
        ''</head>'',
        ''<body>'',
        ''  '' @ body_text,
        ''  '' @ script_block,
        ''</body>'',
        ''</html>'']
       ''\<newline>''"

text \<open>An optional string property: absent, or a string.\<close>

fun optional_prop :: "string option \<Rightarrow> jsval" where
  "optional_prop None = JUndefined"
| "optional_prop (Some s) = JStr s"

text \<open>
  The block of an optional property: nothing when the property is absent or the empty
  string, the element around the escaped text otherwise.
\<close>

fun block_or_empty :: "string \<Rightarrow> string option \<Rightarrow> string" where
  "block_or_empty tag None = []"
| "block_or_empty tag (Some s) =
     (if s = [] then [] else ''<'' @ tag @ ''>'' @ sanitizeHTML s @ ''</'' @ tag @ ''>'')"

text \<open>A value that is a string and is not empty after trimming.\<close>

fun is_nonempty_string :: "jsval \<Rightarrow> bool" where
  "is_nonempty_string (JStr s) = (trim s \<noteq> [])"
| "is_nonempty_string _ = False"

text \<open>
  A string begins with a variant of the prefix \<open>p\<close> in another case when its first
  \<open>length p\<close> characters become \<open>p\<close> once the letters A to Z are put in lower case,
  and are not \<open>p\<close> themselves.
\<close>

definition ascii_lower :: "char \<Rightarrow> char" where
  "ascii_lower c =
     (case map_of (zip ''ABCDEFGHIJKLMNOPQRSTUVWXYZ'' ''abcdefghijklmnopqrstuvwxyz'') c of
        Some l \<Rightarrow> l
      | None \<Rightarrow> c)"

definition case_variant_prefix :: "string \<Rightarrow> string \<Rightarrow> bool" where
  "case_variant_prefix p s =
     (map ascii_lower (take (length p) s) = p \<and> take (length p) s \<noteq> p)"

section \<open>The escaper\<close>

lemma special_class_iff:
  "special_class c \<longleftrightarrow> c = CHR ''&'' \<or> c = CHR ''<'' \<or> c = CHR ''>'' \<or> c = CHR 0x22"
  by (auto simp: special_class_def)

lemma replace_step: "(if special_class c then entity_of c else [c]) = escape_char c"
  by (simp add: special_class_iff entity_of_def entity_table_def escape_char_def)

lemma sanitizeHTML_Nil: "sanitizeHTML [] = []"
  by (simp add: sanitizeHTML_def)

lemma sanitizeHTML_Cons: "sanitizeHTML (c # cs) = escape_char c @ sanitizeHTML cs"
  using replace_step [of c] by (simp add: sanitizeHTML_def)

lemma sanitizeHTML_concat: "sanitizeHTML s = concat (map escape_char s)"
  by (induction s) (simp_all add: sanitizeHTML_Nil sanitizeHTML_Cons)

lemma sanitizeHTML_append: "sanitizeHTML (xs @ ys) = sanitizeHTML xs @ sanitizeHTML ys"
  by (simp add: sanitizeHTML_concat)

lemma escape_char_plain: "\<not> special_class c \<Longrightarrow> escape_char c = [c]"
  by (simp add: escape_char_def special_class_iff)

lemma escape_char_special:
  "special_class c \<Longrightarrow> 1 < length (escape_char c) \<and> CHR ''&'' \<in> set (escape_char c)"
  by (auto simp add: escape_char_def special_class_iff)

lemma escape_char_nonempty: "escape_char c \<noteq> []"
  by (simp add: escape_char_def)

lemma sanitizeHTML_plain: "\<forall>c \<in> set s. \<not> special_class c \<Longrightarrow> sanitizeHTML s = s"
  by (induction s) (simp_all add: sanitizeHTML_Nil sanitizeHTML_Cons escape_char_plain)

lemma sanitizeHTML_length: "length s \<le> length (sanitizeHTML s)"
proof (induction s)
  case Nil
  show ?case by (simp add: sanitizeHTML_Nil)
next
  case (Cons c s)
  have "1 \<le> length (escape_char c)"
    using escape_char_nonempty [of c] by (cases "escape_char c") simp_all
  with Cons show ?case by (simp add: sanitizeHTML_Cons)
qed

lemma sanitizeHTML_grows:
  "\<exists>c \<in> set s. special_class c \<Longrightarrow> length s < length (sanitizeHTML s)"
proof (induction s)
  case Nil
  then show ?case by simp
next
  case (Cons c s)
  show ?case
  proof (cases "special_class c")
    case True
    with escape_char_special [of c] sanitizeHTML_length [of s] show ?thesis
      by (simp add: sanitizeHTML_Cons)
  next
    case False
    with Cons show ?thesis by (simp add: sanitizeHTML_Cons escape_char_plain)
  qed
qed

lemma sanitizeHTML_keeps_special:
  assumes "\<exists>c \<in> set s. special_class c"
  shows "\<exists>c \<in> set (sanitizeHTML s). special_class c"
proof -
  from assms obtain c where c: "c \<in> set s" "special_class c" by blast
  then have "CHR ''&'' \<in> set (sanitizeHTML s)"
    using escape_char_special [of c] by (auto simp: sanitizeHTML_concat)
  moreover have "special_class CHR ''&''" by (simp add: special_class_iff)
  ultimately show ?thesis by blast
qed

lemma sanitizeHTML_eq_Nil: "sanitizeHTML s = [] \<longleftrightarrow> s = []"
  by (cases s) (simp_all add: sanitizeHTML_Nil sanitizeHTML_Cons escape_char_nonempty)

text \<open>
  Claim C7. \<^verbatim>\<open>sanitizeHTML\<close> replaces \<^verbatim>\<open>&\<close>, \<^verbatim>\<open><\<close>, \<^verbatim>\<open>>\<close> and the double quote with
  \<^verbatim>\<open>&amp;\<close>, \<^verbatim>\<open>&lt;\<close>, \<^verbatim>\<open>&gt;\<close> and \<^verbatim>\<open>&quot;\<close> and leaves every other character,
  the single quote among them, as it is. It works character by character from left to
  right: the result for a string is the results for its characters in order, so the
  result for two strings one after the other is the two results one after the other and
  nothing that was substituted is looked at again; a single \<^verbatim>\<open>&\<close> becomes \<^verbatim>\<open>&amp;\<close>
  and not \<^verbatim>\<open>&amp;amp;\<close>. It is defined on every string and maps the empty string to
  the empty string.
\<close>

theorem sanitizeHTML_escapes:
  "sanitizeHTML s = concat (map escape_char s)
   \<and> sanitizeHTML ''&'' = ''&amp;''
   \<and> sanitizeHTML ''<'' = ''&lt;''
   \<and> sanitizeHTML ''>'' = ''&gt;''
   \<and> sanitizeHTML ''\"'' = ''&quot;''
   \<and> (c \<notin> set ''&<>\"'' \<longrightarrow> sanitizeHTML [c] = [c])
   \<and> sanitizeHTML [CHR 0x27] = [CHR 0x27]
   \<and> sanitizeHTML (xs @ ys) = sanitizeHTML xs @ sanitizeHTML ys
   \<and> sanitizeHTML ''&'' \<noteq> ''&amp;amp;''
   \<and> sanitizeHTML [] = []"
proof -
  have "sanitizeHTML s = concat (map escape_char s)"
    by (rule sanitizeHTML_concat)
  moreover have "c \<notin> set ''&<>\"'' \<longrightarrow> sanitizeHTML [c] = [c]"
    by (simp add: sanitizeHTML_Cons sanitizeHTML_Nil escape_char_def)
  moreover have "sanitizeHTML (xs @ ys) = sanitizeHTML xs @ sanitizeHTML ys"
    by (rule sanitizeHTML_append)
  ultimately show ?thesis
    by (simp add: sanitizeHTML_Cons sanitizeHTML_Nil escape_char_def)
qed

theorem sanitizeHTML_escapes_witness:
  "CHR ''a'' \<notin> set ''&<>\"'' \<and> sanitizeHTML ''a'' = ''a''
   \<and> sanitizeHTML ''Tom & \"Jerry\" <b>it's</b>'' =
       ''Tom &amp; &quot;Jerry&quot; &lt;b&gt;it's&lt;/b&gt;''"
  using sanitizeHTML_escapes [of "''Tom & \"Jerry\" <b>it's</b>''" "CHR ''a''" "[]" "[]"]
  by (simp add: escape_char_def)

text \<open>
  Claim C9. Escaping twice gives the same as escaping once exactly for the strings that
  contain none of \<^verbatim>\<open>&\<close>, \<^verbatim>\<open><\<close>, \<^verbatim>\<open>>\<close> and the double quote. For a string that
  contains one of them, the second pass escapes the \<^verbatim>\<open>&\<close> of every entity again, so
  its result is longer than, and differs from, the result of the first.
\<close>

theorem sanitizeHTML_idempotent_iff:
  "(sanitizeHTML (sanitizeHTML s) = sanitizeHTML s \<longleftrightarrow> set s \<inter> set ''&<>\"'' = {})
   \<and> (set s \<inter> set ''&<>\"'' \<noteq> {} \<longrightarrow>
        length (sanitizeHTML s) < length (sanitizeHTML (sanitizeHTML s)))"
proof (cases "\<exists>c \<in> set s. special_class c")
  case True
  then have longer: "length (sanitizeHTML s) < length (sanitizeHTML (sanitizeHTML s))"
    using sanitizeHTML_grows [of "sanitizeHTML s"] sanitizeHTML_keeps_special [of s] by blast
  then have "sanitizeHTML (sanitizeHTML s) \<noteq> sanitizeHTML s" by auto
  moreover from True have "set s \<inter> set ''&<>\"'' \<noteq> {}"
    unfolding special_class_def by blast
  ultimately show ?thesis using longer by simp
next
  case False
  then have "sanitizeHTML s = s" using sanitizeHTML_plain [of s] by blast
  moreover from False have "set s \<inter> set ''&<>\"'' = {}"
    unfolding special_class_def by blast
  ultimately show ?thesis by simp
qed

theorem sanitizeHTML_idempotent_iff_witness:
  "set ''it's'' \<inter> set ''&<>\"'' = {}
   \<and> sanitizeHTML (sanitizeHTML ''it's'') = sanitizeHTML ''it's''
   \<and> set ''R&D'' \<inter> set ''&<>\"'' \<noteq> {}
   \<and> sanitizeHTML (sanitizeHTML ''R&D'') \<noteq> sanitizeHTML ''R&D''
   \<and> sanitizeHTML ''R&D'' = ''R&amp;D''
   \<and> sanitizeHTML (sanitizeHTML ''R&D'') = ''R&amp;amp;D''"
  using sanitizeHTML_idempotent_iff [of "''it's''"] sanitizeHTML_idempotent_iff [of "''R&D''"]
  by (simp add: sanitizeHTML_Cons sanitizeHTML_Nil escape_char_def)

section \<open>createLink\<close>

lemma prefix_take: "prefix p s \<Longrightarrow> take (length p) s = p"
  by (auto simp: prefix_def)

lemma variant_not_prefix: "case_variant_prefix p s \<Longrightarrow> \<not> prefix p s"
  using prefix_take [of p s] by (auto simp: case_variant_prefix_def)

lemma variant_javascript_not_data:
  assumes "case_variant_prefix ''javascript:'' s"
  shows "\<not> prefix ''data:'' s"
proof
  assume "prefix ''data:'' s"
  then obtain r where "s = CHR ''d'' # r" by (auto simp: prefix_def)
  with assms show False by (simp add: case_variant_prefix_def ascii_lower_def)
qed

lemma variant_data_not_javascript:
  assumes "case_variant_prefix ''data:'' s"
  shows "\<not> prefix ''javascript:'' s"
proof
  assume "prefix ''javascript:'' s"
  then obtain r where "s = CHR ''j'' # r" by (auto simp: prefix_def)
  with assms show False by (simp add: case_variant_prefix_def ascii_lower_def)
qed

text \<open>
  Claim C6. For every text and href, \<^verbatim>\<open>createLink\<close> throws the error with the message
  \<^verbatim>\<open>Invalid href: Potential XSS attack detected\<close> if and only if the href as it is
  passed, before any escaping, starts with \<^verbatim>\<open>javascript:\<close> or with \<^verbatim>\<open>data:\<close>. For
  every other href it returns the anchor element with the escaped href as attribute and
  the escaped text as content.
\<close>

theorem createLink_xss_check:
  "(createLink text href = Inl (Error ''Invalid href: Potential XSS attack detected'')
      \<longleftrightarrow> prefix ''javascript:'' href \<or> prefix ''data:'' href)
   \<and> (\<not> (prefix ''javascript:'' href \<or> prefix ''data:'' href) \<longrightarrow>
        createLink text href =
          Inr (''<a href=\"'' @ sanitizeHTML href @ ''\">'' @ sanitizeHTML text @ ''</a>''))"
  by (simp add: createLink_def startsWith_def xss_detected_def)

theorem createLink_xss_check_witness:
  "createLink ''x'' ''javascript:alert(1)'' =
     Inl (Error ''Invalid href: Potential XSS attack detected'')
   \<and> createLink ''x'' ''data:text/html,<p>'' =
     Inl (Error ''Invalid href: Potential XSS attack detected'')
   \<and> \<not> (prefix ''javascript:'' ''https://example.com'' \<or> prefix ''data:'' ''https://example.com'')
   \<and> createLink ''Click here'' ''https://example.com'' =
     Inr ''<a href=\"https://example.com\">Click here</a>''
   \<and> createLink ''a<b'' ''/q?a=1&b=\"2\"'' =
     Inr ''<a href=\"/q?a=1&amp;b=&quot;2&quot;\">a&lt;b</a>''"
  using createLink_xss_check [of "''x''" "''javascript:alert(1)''"]
    createLink_xss_check [of "''x''" "''data:text/html,<p>''"]
    createLink_xss_check [of "''Click here''" "''https://example.com''"]
    createLink_xss_check [of "''a<b''" "''/q?a=1&b=\"2\"''"]
  by (simp add: sanitizeHTML_Cons sanitizeHTML_Nil escape_char_def)

text \<open>
  Claim C10. The check of the href is case-sensitive: for every href that begins with a
  variant of \<^verbatim>\<open>javascript:\<close> or of \<^verbatim>\<open>data:\<close> in which some letter is in upper case,
  such as \<^verbatim>\<open>JavaScript:\<close> or \<^verbatim>\<open>DATA:\<close>, \<^verbatim>\<open>createLink\<close> does not throw and returns
  the anchor element with that href, escaped, as attribute.
\<close>

theorem createLink_case_sensitive:
  "case_variant_prefix ''javascript:'' href \<or> case_variant_prefix ''data:'' href \<Longrightarrow>
     createLink text href =
       Inr (''<a href=\"'' @ sanitizeHTML href @ ''\">'' @ sanitizeHTML text @ ''</a>'')"
  using variant_not_prefix [of "''javascript:''" href] variant_not_prefix [of "''data:''" href]
    variant_javascript_not_data [of href] variant_data_not_javascript [of href]
  by (auto simp add: createLink_def startsWith_def)

theorem createLink_case_sensitive_witness:
  "case_variant_prefix ''javascript:'' ''JavaScript:alert(1)''
   \<and> createLink ''x'' ''JavaScript:alert(1)'' = Inr ''<a href=\"JavaScript:alert(1)\">x</a>''
   \<and> case_variant_prefix ''data:'' ''DATA:text/html,<p>''
   \<and> createLink ''x'' ''DATA:text/html,<p>'' = Inr ''<a href=\"DATA:text/html,&lt;p&gt;\">x</a>''"
proof -
  have a: "case_variant_prefix ''javascript:'' ''JavaScript:alert(1)''"
    by (simp add: case_variant_prefix_def ascii_lower_def)
  have b: "case_variant_prefix ''data:'' ''DATA:text/html,<p>''"
    by (simp add: case_variant_prefix_def ascii_lower_def)
  show ?thesis
    using a b createLink_case_sensitive [of "''JavaScript:alert(1)''" "''x''"]
      createLink_case_sensitive [of "''DATA:text/html,<p>''" "''x''"]
    by (simp add: sanitizeHTML_Cons sanitizeHTML_Nil escape_char_def)
qed

text \<open>
  Claim C3 says that \<^verbatim>\<open>createLink('', '')\<close> succeeds and returns exactly
  \<^verbatim>\<open><a href="">\<close>, with no closing tag, which is also what the test of the module for
  empty text and href expects. The call does succeed, but the function returns
  \<^verbatim>\<open><a href=""></a>\<close>: the closing tag is there, so the result is not the string the
  claim and the test give.
\<close>

theorem createLink_empty:
  "createLink '''' '''' = Inr ''<a href=\"\"></a>''
   \<and> createLink '''' '''' \<noteq> Inr ''<a href=\"\">''"
  by (simp add: createLink_def startsWith_def sanitizeHTML_Nil)

section \<open>createHeading\<close>

lemma digits_small: "n < 10 \<Longrightarrow> digits n = [''0123456789'' ! n]"
  by (simp add: digits.simps)

lemma createHeading_returns: "\<exists>s. createHeading text level = Inr s"
  by (simp add: createHeading_def)

text \<open>
  Claim C1 says that a level outside 1 to 6 makes \<^verbatim>\<open>createHeading\<close> throw the error
  \<^verbatim>\<open>Heading level must be between 1 and 6\<close>. The function has no check of the level:
  at the levels 0 and 7 it returns the elements \<^verbatim>\<open>h0\<close> and \<^verbatim>\<open>h7\<close>.
\<close>

theorem createHeading_no_level_check:
  "createHeading ''Invalid'' 0 = Inr ''<h0>Invalid</h0>''
   \<and> createHeading ''Invalid'' 7 = Inr ''<h7>Invalid</h7>''"
  by (simp add: createHeading_def number_toString_def digits_small
      sanitizeHTML_Cons sanitizeHTML_Nil escape_char_def)

section \<open>createUnorderedList\<close>

lemma map_list_items_strings:
  "map_list_items (map JStr items) = Inr (map (\<lambda>i. ''<li>'' @ sanitizeHTML i @ ''</li>'') items)"
  by (induction items) simp_all

lemma join_concat: "xs \<noteq> [] \<Longrightarrow> sep @ join xs sep = concat (map (\<lambda>x. sep @ x) xs)"
  by (induction xs sep rule: join.induct) simp_all

text \<open>
  Claim C2 says that an argument that is not an array, such as the string
  \<^verbatim>\<open>not an array\<close>, makes \<^verbatim>\<open>createUnorderedList\<close> throw the error
  \<^verbatim>\<open>Items must be an array of strings\<close>. The function has no check of its argument:
  calling the method \<^verbatim>\<open>map\<close>, which a string does not have, throws the runtime's type
  error instead.
\<close>

theorem createUnorderedList_not_an_array:
  "createUnorderedList (JStr ''not an array'') = Inl TypeError
   \<and> createUnorderedList (JStr ''not an array'') \<noteq>
       Inl (Error ''Items must be an array of strings'')"
  by simp

text \<open>
  Claim C8. For every array of strings, \<^verbatim>\<open>createUnorderedList\<close> returns the opening
  tag and a newline, then the \<^verbatim>\<open>li\<close> elements of the items, each item escaped on its
  own, joined by single newlines, then a newline and the closing tag. Said without the
  join, for an array that is not empty: the opening tag, then for each item a newline
  and its element, then a newline and the closing tag. The empty array gives exactly
  the opening tag, two newlines and the closing tag.
\<close>

theorem createUnorderedList_layout:
  "createUnorderedList (JArr (map JStr items)) =
     Inr (''<ul>\<newline>'' @ join (map (\<lambda>i. ''<li>'' @ sanitizeHTML i @ ''</li>'') items) ''\<newline>''
          @ ''\<newline></ul>'')
   \<and> (items \<noteq> [] \<longrightarrow>
        createUnorderedList (JArr (map JStr items)) =
          Inr (''<ul>'' @ concat (map (\<lambda>i. ''\<newline><li>'' @ sanitizeHTML i @ ''</li>'') items)
               @ ''\<newline></ul>''))
   \<and> createUnorderedList (JArr []) = Inr ''<ul>\<newline>\<newline></ul>''"
proof -
  let ?li = "\<lambda>i. ''<li>'' @ sanitizeHTML i @ ''</li>''"
  have a: "createUnorderedList (JArr (map JStr items)) =
     Inr (''<ul>\<newline>'' @ join (map ?li items) ''\<newline>'' @ ''\<newline></ul>'')"
    by (simp add: map_list_items_strings)
  have b: "''\<newline>'' @ join (map ?li items) ''\<newline>'' =
           concat (map (\<lambda>i. ''\<newline><li>'' @ sanitizeHTML i @ ''</li>'') items)"
    if "items \<noteq> []"
    using that join_concat [of "map ?li items" "''\<newline>''"] by (simp add: comp_def)
  have c: "createUnorderedList (JArr []) = Inr ''<ul>\<newline>\<newline></ul>''"
    by simp
  from a b c show ?thesis by simp
qed

theorem createUnorderedList_layout_witness:
  "[''Item 1'', ''Item 2'', ''Item 3''] \<noteq> []
   \<and> createUnorderedList (JArr [JStr ''Item 1'', JStr ''Item 2'', JStr ''Item 3'']) =
     Inr ''<ul>\<newline><li>Item 1</li>\<newline><li>Item 2</li>\<newline><li>Item 3</li>\<newline></ul>''
   \<and> createUnorderedList (JArr [JStr ''a<b'', JStr ''R&D'']) =
     Inr ''<ul>\<newline><li>a&lt;b</li>\<newline><li>R&amp;D</li>\<newline></ul>''"
  using createUnorderedList_layout [of "[''Item 1'', ''Item 2'', ''Item 3'']"]
    createUnorderedList_layout [of "[''a<b'', ''R&D'']"]
  by (simp add: sanitizeHTML_Cons sanitizeHTML_Nil escape_char_def)

section \<open>generateWebsite\<close>

lemma not_string_or_blank_iff: "not_string_or_blank v \<longleftrightarrow> \<not> is_nonempty_string v"
  by (cases v) (simp_all add: not_string_or_blank_def)

text \<open>A string is empty after trimming exactly when it consists of white space.\<close>

lemma trim_Nil_iff: "trim s = [] \<longleftrightarrow> (\<forall>c \<in> set s. is_white_space c)"
proof
  assume "trim s = []"
  then have rest: "\<forall>c \<in> set (dropWhile is_white_space s). is_white_space c"
    by (simp add: trim_def)
  show "\<forall>c \<in> set s. is_white_space c"
  proof (cases "dropWhile is_white_space s")
    case Nil
    then show ?thesis by (simp only: dropWhile_eq_Nil_conv)
  next
    case (Cons x xs)
    then have "\<not> is_white_space x" using hd_dropWhile [of is_white_space s] by simp
    with rest Cons show ?thesis by simp
  qed
next
  assume "\<forall>c \<in> set s. is_white_space c"
  then have h: "dropWhile is_white_space s = []" by (simp only: dropWhile_eq_Nil_conv)
  show "trim s = []" unfolding trim_def h by simp
qed

lemma sanitize_optional_prop:
  "sanitize_optional (optional_prop v) =
     Inr (case v of None \<Rightarrow> [] | Some s \<Rightarrow> sanitizeHTML s)"
  by (cases v) (simp_all add: sanitize_optional_def sanitizeHTML_Nil)

lemma optional_block_prop:
  "optional_block tag (case v of None \<Rightarrow> [] | Some s \<Rightarrow> sanitizeHTML s) = block_or_empty tag v"
  by (cases v) (simp_all add: optional_block_def sanitizeHTML_eq_Nil)

lemma generateWebsite_valid:
  assumes "trim t \<noteq> []" and "trim b \<noteq> []"
  shows "generateWebsite
           (Some \<lparr>title = JStr t, bodyContent = JStr b,
                  styles = optional_prop st, scripts = optional_prop sc\<rparr>) =
         Inr (document_template (sanitizeHTML t) (block_or_empty ''style'' st)
                (sanitizeHTML b) (block_or_empty ''script'' sc))"
  using assms
  by (simp add: generateWebsite_def not_string_or_blank_def sanitize_optional_prop
      optional_block_prop document_template_def)

lemma sanitizeHTML_val_error: "sanitizeHTML_val v = Inl e \<Longrightarrow> e = TypeError"
  by (cases v) simp_all

lemma sanitize_optional_error: "sanitize_optional v = Inl e \<Longrightarrow> e = TypeError"
  using sanitizeHTML_val_error [of v e] by (simp add: sanitize_optional_def split: if_splits)

lemma generateWebsite_error:
  assumes "is_nonempty_string (title options)" and "is_nonempty_string (bodyContent options)"
    and "generateWebsite (Some options) = Inl e"
  shows "e = TypeError"
  using assms sanitizeHTML_val_error [of "title options" e]
    sanitizeHTML_val_error [of "bodyContent options" e]
    sanitize_optional_error [of "styles options" e]
    sanitize_optional_error [of "scripts options" e]
  by (simp add: generateWebsite_def not_string_or_blank_iff split: sum.splits)

text \<open>
  Claim C4. For every options record whose title and body content are strings that are
  not empty after trimming, and whose styles and scripts are strings or absent,
  \<^verbatim>\<open>generateWebsite\<close> returns the document template filled with the escaped title,
  the escaped body content, and the style and script blocks around the escaped styles
  and scripts, each escaped on its own. An absent (or empty) styles or scripts property
  gives no block: its line of the template is then the two spaces of its indentation
  and nothing else.
\<close>

theorem generateWebsite_template:
  "(trim t \<noteq> [] \<and> trim b \<noteq> [] \<longrightarrow>
      generateWebsite
        (Some \<lparr>title = JStr t, bodyContent = JStr b,
               styles = optional_prop st, scripts = optional_prop sc\<rparr>) =
      Inr (document_template (sanitizeHTML t) (block_or_empty ''style'' st)
             (sanitizeHTML b) (block_or_empty ''script'' sc)))
   \<and> block_or_empty ''style'' None = []
   \<and> block_or_empty ''script'' None = []
   \<and> document_template (sanitizeHTML t) [] (sanitizeHTML b) [] =
       ''<!DOCTYPE html>\<newline><html lang=\"en\">\<newline><head>\<newline>'' @
       ''  <meta charset=\"UTF-8\">\<newline>'' @
       ''  <meta name=\"viewport\" content=\"width=device-width, initial-scale=1.0\">\<newline>'' @
       ''  <title>'' @ sanitizeHTML t @ ''</title>\<newline>'' @
       ''  \<newline>'' @
       ''</head>\<newline><body>\<newline>'' @
       ''  '' @ sanitizeHTML b @ ''\<newline>'' @
       ''  \<newline>'' @
       ''</body>\<newline></html>''"
  using generateWebsite_valid [of t b st sc]
  by (simp add: document_template_def)

theorem generateWebsite_template_witness:
  "trim ''Test Site'' \<noteq> [] \<and> trim ''<div>Hello</div>'' \<noteq> []
   \<and> generateWebsite
       (Some \<lparr>title = JStr ''Test Site'', bodyContent = JStr ''<div>Hello</div>'',
              styles = JStr ''body { font-family: sans-serif; }'',
              scripts = JStr ''console.log(\"loaded\");''\<rparr>) =
     Inr (''<!DOCTYPE html>\<newline><html lang=\"en\">\<newline><head>\<newline>'' @
       ''  <meta charset=\"UTF-8\">\<newline>'' @
       ''  <meta name=\"viewport\" content=\"width=device-width, initial-scale=1.0\">\<newline>'' @
       ''  <title>Test Site</title>\<newline>'' @
       ''  <style>body { font-family: sans-serif; }</style>\<newline>'' @
       ''</head>\<newline><body>\<newline>'' @
       ''  &lt;div&gt;Hello&lt;/div&gt;\<newline>'' @
       ''  <script>console.log(&quot;loaded&quot;);</script>\<newline>'' @
       ''</body>\<newline></html>'')
   \<and> generateWebsite
       (Some \<lparr>title = JStr ''Test Site'', bodyContent = JStr ''<div>Hello</div>'',
              styles = JUndefined, scripts = JUndefined\<rparr>) =
     Inr (''<!DOCTYPE html>\<newline><html lang=\"en\">\<newline><head>\<newline>'' @
       ''  <meta charset=\"UTF-8\">\<newline>'' @
       ''  <meta name=\"viewport\" content=\"width=device-width, initial-scale=1.0\">\<newline>'' @
       ''  <title>Test Site</title>\<newline>'' @
       ''  \<newline>'' @
       ''</head>\<newline><body>\<newline>'' @
       ''  &lt;div&gt;Hello&lt;/div&gt;\<newline>'' @
       ''  \<newline>'' @
       ''</body>\<newline></html>'')"
proof -
  have t: "trim ''Test Site'' \<noteq> []"
    by (simp add: trim_def is_white_space_def)
  have b: "trim ''<div>Hello</div>'' \<noteq> []"
    by (simp add: trim_def is_white_space_def)
  have e1: "sanitizeHTML ''Test Site'' = ''Test Site''"
    by (simp add: sanitizeHTML_Cons sanitizeHTML_Nil escape_char_def)
  have e2: "sanitizeHTML ''<div>Hello</div>'' = ''&lt;div&gt;Hello&lt;/div&gt;''"
    by (simp add: sanitizeHTML_Cons sanitizeHTML_Nil escape_char_def)
  have e3: "sanitizeHTML ''body { font-family: sans-serif; }'' =
            ''body { font-family: sans-serif; }''"
    by (simp add: sanitizeHTML_Cons sanitizeHTML_Nil escape_char_def)
  have e4: "sanitizeHTML ''console.log(\"loaded\");'' = ''console.log(&quot;loaded&quot;);''"
    by (simp add: sanitizeHTML_Cons sanitizeHTML_Nil escape_char_def)
  show ?thesis
    using t b
      generateWebsite_template [of "''Test Site''" "''<div>Hello</div>''"
        "Some ''body { font-family: sans-serif; }''" "Some ''console.log(\"loaded\");''"]
      generateWebsite_template [of "''Test Site''" "''<div>Hello</div>''" None None]
    by (simp add: document_template_def e1 e2 e3 e4)
qed

text \<open>
  Claim C5. \<^verbatim>\<open>generateWebsite\<close> throws the error
  \<^verbatim>\<open>Title is required and must be a non-empty string\<close> whenever the title is not a
  string or is empty after trimming, whatever the body content is, and also when there
  is no options object at all. With a title that is a string and not empty after
  trimming, it throws \<^verbatim>\<open>Body content is required and must be a non-empty string\<close>
  whenever the body content is not a string or is empty after trimming. In both cases
  the result is the error and no document. With a valid title and a valid body content
  neither of the two errors, nor any other error of the module, is thrown.
\<close>

theorem generateWebsite_validation:
  "generateWebsite None = Inl (Error ''Title is required and must be a non-empty string'')
   \<and> (\<not> is_nonempty_string (title options) \<longrightarrow>
        generateWebsite (Some options) =
          Inl (Error ''Title is required and must be a non-empty string''))
   \<and> (is_nonempty_string (title options) \<and> \<not> is_nonempty_string (bodyContent options) \<longrightarrow>
        generateWebsite (Some options) =
          Inl (Error ''Body content is required and must be a non-empty string''))
   \<and> (is_nonempty_string (title options) \<and> is_nonempty_string (bodyContent options) \<longrightarrow>
        (\<forall>m. generateWebsite (Some options) \<noteq> Inl (Error m)))"
proof -
  have a: "generateWebsite None = Inl (Error ''Title is required and must be a non-empty string'')"
    by (simp add: generateWebsite_def title_required_def)
  have b: "\<not> is_nonempty_string (title options) \<longrightarrow>
        generateWebsite (Some options) =
          Inl (Error ''Title is required and must be a non-empty string'')"
    by (simp add: generateWebsite_def not_string_or_blank_iff title_required_def)
  have c: "is_nonempty_string (title options) \<and> \<not> is_nonempty_string (bodyContent options) \<longrightarrow>
        generateWebsite (Some options) =
          Inl (Error ''Body content is required and must be a non-empty string'')"
    by (simp add: generateWebsite_def not_string_or_blank_iff body_required_def)
  have d: "is_nonempty_string (title options) \<and> is_nonempty_string (bodyContent options) \<longrightarrow>
        (\<forall>m. generateWebsite (Some options) \<noteq> Inl (Error m))"
    using generateWebsite_error [of options] by blast
  from a b c d show ?thesis by blast
qed

theorem generateWebsite_validation_witness:
  "\<not> is_nonempty_string JUndefined
   \<and> generateWebsite (Some \<lparr>title = JUndefined, bodyContent = JStr ''<p>Content</p>'',
                          styles = JUndefined, scripts = JUndefined\<rparr>) =
     Inl (Error ''Title is required and must be a non-empty string'')
   \<and> \<not> is_nonempty_string (JStr '' '')
   \<and> generateWebsite (Some \<lparr>title = JStr '' '', bodyContent = JUndefined,
                          styles = JUndefined, scripts = JUndefined\<rparr>) =
     Inl (Error ''Title is required and must be a non-empty string'')
   \<and> is_nonempty_string (JStr ''Test'')
   \<and> generateWebsite (Some \<lparr>title = JStr ''Test'', bodyContent = JUndefined,
                          styles = JUndefined, scripts = JUndefined\<rparr>) =
     Inl (Error ''Body content is required and must be a non-empty string'')
   \<and> \<not> is_nonempty_string (JStr [])
   \<and> generateWebsite (Some \<lparr>title = JStr ''Test'', bodyContent = JStr [],
                          styles = JUndefined, scripts = JUndefined\<rparr>) =
     Inl (Error ''Body content is required and must be a non-empty string'')
   \<and> is_nonempty_string (JStr ''x'')
   \<and> generateWebsite (Some \<lparr>title = JStr ''Test'', bodyContent = JStr ''x'',
                          styles = JUndefined, scripts = JUndefined\<rparr>) \<noteq>
     Inl (Error ''Title is required and must be a non-empty string'')"
  using
    generateWebsite_validation [of "\<lparr>title = JUndefined, bodyContent = JStr ''<p>Content</p>'',
               styles = JUndefined, scripts = JUndefined\<rparr>"]
    generateWebsite_validation [of "\<lparr>title = JStr '' '', bodyContent = JUndefined,
               styles = JUndefined, scripts = JUndefined\<rparr>"]
    generateWebsite_validation [of "\<lparr>title = JStr ''Test'', bodyContent = JUndefined,
               styles = JUndefined, scripts = JUndefined\<rparr>"]
    generateWebsite_validation [of "\<lparr>title = JStr ''Test'', bodyContent = JStr [],
               styles = JUndefined, scripts = JUndefined\<rparr>"]
    generateWebsite_validation [of "\<lparr>title = JStr ''Test'', bodyContent = JStr ''x'',
               styles = JUndefined, scripts = JUndefined\<rparr>"]
  by (simp add: trim_def is_white_space_def)

end
